theory Spec2Isabelle
  imports Main "HOL-Library.AList"
begin

section \<open>Python values and exceptions\<close>

text \<open>
  The Python values that the modelled functions read from attributes, dictionaries and
  argument objects. \<open>truthy\<close> is Python's truth test on them, as used by \<open>if x:\<close> and
  \<open>if not x:\<close>.
\<close>

datatype pyval = PyNone | PyInt int | PyStr string

fun truthy :: "pyval \<Rightarrow> bool" where
  "truthy PyNone = False"
| "truthy (PyInt n) = (n \<noteq> 0)"
| "truthy (PyStr s) = (s \<noteq> [])"

text \<open>
  The exceptions that leave the modelled functions, each with its message.
  \<open>Exception\<close> is the plain \<open>Exception\<close> of \<open>get_win32_app_data_path\<close>.
\<close>

datatype error =
    AttributeError string
  | LookupError string
  | TypeError string
  | IOError string
  | UnicodeDecodeError string
  | PortableDirNotWritable string
  | DatabaseInSettingsError string
  | Exception string

section \<open>motions/migrations/0021\_state\_access\_level.py\<close>

text \<open>
  A row of the motions State table maps field names to values; the table maps primary
  keys to rows. The database state holds the table and the primary keys of the
  \<open>save\<close> calls made so far, in order.
\<close>

type_synonym row = "(string \<times> pyval) list"

type_synonym table = "(nat \<times> row) list"

record database =
  state_table :: table
  save_calls :: "nat list"

text \<open>\<open>state.save(skip_autoupdate=True)\<close>: writes the instance's fields to the row
  with its primary key.\<close>

definition save :: "nat \<Rightarrow> row \<Rightarrow> database \<Rightarrow> database" where
  "save pk r d =
     d\<lparr>state_table := AList.update pk r (state_table d),
       save_calls := save_calls d @ [pk]\<rparr>"

text \<open>
  The body of the \<open>for state in State.objects.all()\<close> loop, over the instances loaded
  when the loop starts. Reading an attribute the instance does not have raises
  \<open>AttributeError\<close>.
\<close>

fun transform_loop :: "(nat \<times> row) list \<Rightarrow> database \<Rightarrow> error + database" where
  "transform_loop [] d = Inr d"
| "transform_loop ((pk, state) # rest) d =
     (case map_of state ''required_permission_to_see'' of
        None \<Rightarrow> Inl (AttributeError ''required_permission_to_see'')
      | Some v \<Rightarrow>
          if truthy v
          then transform_loop rest (save pk (AList.update ''access_level'' (PyInt 1) state) d)
          else transform_loop rest d)"

definition transform_required_permission_to_see_field :: "database \<Rightarrow> error + database" where
  "transform_required_permission_to_see_field d = transform_loop (state_table d) d"

datatype field = IntegerField (choices: "(int \<times> string) list") (default_value: int)

datatype operation =
    AddField string string field
  | RunPython "database \<Rightarrow> error + database"
  | RemoveField string string

text \<open>
  The effect of one migration operation on the rows. \<open>AddField\<close> gives every existing
  row the field with its default; \<open>RemoveField\<close> drops the field from every row. The
  database modelled here holds the State model only, so another model name is a lookup
  error.
\<close>

fun apply_operation :: "operation \<Rightarrow> database \<Rightarrow> error + database" where
  "apply_operation (AddField model_name name f) d =
     (if model_name = ''state''
      then Inr (d\<lparr>state_table :=
                  map (\<lambda>(pk, r). (pk, AList.update name (PyInt (default_value f)) r))
                      (state_table d)\<rparr>)
      else Inl (LookupError model_name))"
| "apply_operation (RunPython code) d = code d"
| "apply_operation (RemoveField model_name name) d =
     (if model_name = ''state''
      then Inr (d\<lparr>state_table := map (\<lambda>(pk, r). (pk, AList.delete name r)) (state_table d)\<rparr>)
      else Inl (LookupError model_name))"

text \<open>Operations run in list order; the first exception stops the migration.\<close>

fun apply_operations :: "operation list \<Rightarrow> database \<Rightarrow> error + database" where
  "apply_operations [] d = Inr d"
| "apply_operations (op # ops) d =
     (case apply_operation op d of Inl e \<Rightarrow> Inl e | Inr d' \<Rightarrow> apply_operations ops d')"

definition access_level_field :: field where
  "access_level_field =
     IntegerField
       [(0, ''All users with permission to see motions''),
        (1, ''Submitters, managers and users with permission to manage metadata''),
        (2, ''Only managers and users with permission to manage metadata''),
        (3, ''Only managers'')]
       0"

definition operations :: "operation list" where
  "operations =
     [AddField ''state'' ''access_level'' access_level_field,
      RunPython transform_required_permission_to_see_field,
      RemoveField ''state'' ''required_permission_to_see'']"

definition Migration :: "database \<Rightarrow> error + database" where
  "Migration d = apply_operations operations d"

text \<open>The value of a field of the row with primary key \<open>pk\<close>, if there is one.\<close>

definition field_of :: "database \<Rightarrow> nat \<Rightarrow> string \<Rightarrow> pyval option" where
  "field_of d pk name =
     (case map_of (state_table d) pk of None \<Rightarrow> None | Some r \<Rightarrow> map_of r name)"

text \<open>Whether \<open>state.required_permission_to_see\<close> is given, that is, truthy.\<close>

definition requires_permission :: "row \<Rightarrow> bool" where
  "requires_permission r =
     (case map_of r ''required_permission_to_see'' of None \<Rightarrow> False | Some v \<Rightarrow> truthy v)"

text \<open>Whether a row has a column of the given name.\<close>

definition has_field :: "string \<Rightarrow> row \<Rightarrow> bool" where
  "has_field name r = (map_of r name \<noteq> None)"

text \<open>Whether the row's \<open>access_level\<close> is one of the declared choices.\<close>

definition valid_access_level :: "row \<Rightarrow> bool" where
  "valid_access_level r =
     (case map_of r ''access_level'' of
        Some (PyInt l) \<Rightarrow> l \<in> fst ` set (choices access_level_field)
      | _ \<Rightarrow> False)"

text \<open>
  Two State tables that differ only in the permission string of the second row, and the
  table both are migrated to.
\<close>

definition example_db :: database where
  "example_db =
     \<lparr>state_table =
        [(1, [(''name'', PyStr ''submitted''), (''required_permission_to_see'', PyStr '''')]),
         (2, [(''name'', PyStr ''rejected''),
              (''required_permission_to_see'', PyStr ''motions.can_manage'')])],
      save_calls = []\<rparr>"

definition example_db' :: database where
  "example_db' =
     \<lparr>state_table =
        [(1, [(''name'', PyStr ''submitted''), (''required_permission_to_see'', PyStr '''')]),
         (2, [(''name'', PyStr ''rejected''),
              (''required_permission_to_see'', PyStr ''motions.can_see_internal'')])],
      save_calls = []\<rparr>"

definition migrated_example_db :: database where
  "migrated_example_db =
     \<lparr>state_table =
        [(1, [(''name'', PyStr ''submitted''), (''access_level'', PyInt 0)]),
         (2, [(''name'', PyStr ''rejected''), (''access_level'', PyInt 1)])],
      save_calls = [2]\<rparr>"

section \<open>utils/main.py\<close>

definition UNIX_VERSION :: string where
  "UNIX_VERSION = ''Unix Version''"

definition WINDOWS_VERSION :: string where
  "WINDOWS_VERSION = ''Windows Version''"

definition WINDOWS_PORTABLE_VERSION :: string where
  "WINDOWS_PORTABLE_VERSION = ''Windows Portable Version''"

text \<open>
  The two string types of the interpreter this module is written for: byte strings
  (\<open>str\<close>) and \<open>unicode\<close> objects.
\<close>

datatype pystring = Str string | Unicode string

fun text_of :: "pystring \<Rightarrow> string" where
  "text_of (Str s) = s"
| "text_of (Unicode s) = s"

fun is_unicode :: "pystring \<Rightarrow> bool" where
  "is_unicode (Str s) = False"
| "is_unicode (Unicode s) = True"

text \<open>
  What the functions read from the interpreter, the operating system and the standard
  library: \<open>sys.platform\<close>, \<open>sys.executable\<close>, \<open>os.environ\<close>, the directory of the
  module (\<open>os.path.dirname(__file__)\<close>), the functions of \<open>os.path\<close>, \<open>repr\<close>, the
  \<open>%\<close> formatting of a template with a dictionary, the value of
  \<open>b64encode(os.urandom(30))\<close>, the result code and buffer of \<open>SHGetFolderPathW\<close>, and
  the outcomes of the calls that the code guards with \<open>try\<close>: \<open>tempfile.mkstemp\<close> gives
  a descriptor and a file name or raises \<open>OSError\<close> (\<open>None\<close>); \<open>bind\<close> and \<open>listen\<close>
  succeed or raise \<open>socket.error\<close> (\<open>False\<close>). \<open>fs_decode\<close> is \<open>path.decode(enc)\<close> for
  \<open>enc = sys.getfilesystemencoding() or sys.getdefaultencoding()\<close>: the decoded text, or
  \<open>None\<close> when the bytes are not valid in that encoding and \<open>UnicodeDecodeError\<close> is
  raised. \<open>sys.executable\<close>, the values of \<open>os.environ\<close> and the results of \<open>os.path\<close>
  on them are byte strings.
\<close>

record host =
  platform :: string
  executable :: string
  environ :: "(string \<times> string) list"
  module_dir :: string
  os_path_expanduser :: "string \<Rightarrow> string"
  os_path_join :: "string list \<Rightarrow> string"
  os_path_basename :: "string \<Rightarrow> string"
  os_path_dirname :: "string \<Rightarrow> string"
  os_path_abspath :: "string \<Rightarrow> string"
  os_path_realpath :: "string \<Rightarrow> string"
  fs_decode :: "string \<Rightarrow> string option"
  py_repr :: "string \<Rightarrow> string"
  py_format :: "string \<Rightarrow> (string \<times> string) list \<Rightarrow> error + string"
  urandom_b64 :: string
  SHGetFolderPath :: "nat \<times> string"
  mkstemp :: "string \<Rightarrow> (nat \<times> string) option"
  socket_bind :: "string \<Rightarrow> int \<Rightarrow> bool"
  socket_listen :: "string \<Rightarrow> int \<Rightarrow> bool"

text \<open>
  What the functions change: the files with their contents, the directories, the open
  file descriptors, and the sequence of effectful calls made so far.
\<close>

datatype event =
    Mkstemp string
  | OsClose nat
  | OsUnlink string
  | SocketNew
  | SocketBind string int
  | SocketListen int
  | SocketClose
  | Makedirs string
  | WriteFile string string
  | Print string

record world =
  files :: "string \<rightharpoonup> string"
  dirs :: "string set"
  open_fds :: "nat set"
  calls :: "event list"

definition call :: "event \<Rightarrow> world \<Rightarrow> world" where
  "call e w = w\<lparr>calls := calls w @ [e]\<rparr>"

definition os_path_exists :: "world \<Rightarrow> string \<Rightarrow> bool" where
  "os_path_exists w p = (files w p \<noteq> None \<or> p \<in> dirs w)"

definition os_close :: "nat \<Rightarrow> world \<Rightarrow> world" where
  "os_close fd w = call (OsClose fd) (w\<lparr>open_fds := open_fds w - {fd}\<rparr>)"

definition os_unlink :: "string \<Rightarrow> world \<Rightarrow> world" where
  "os_unlink p w = call (OsUnlink p) (w\<lparr>files := (files w)(p := None)\<rparr>)"

definition os_makedirs :: "string \<Rightarrow> world \<Rightarrow> world" where
  "os_makedirs p w = call (Makedirs p) (w\<lparr>dirs := insert p (dirs w)\<rparr>)"

text \<open>\<open>with open(path, 'w') as f: f.write(content)\<close>\<close>

definition write_file :: "string \<Rightarrow> string \<Rightarrow> world \<Rightarrow> world" where
  "write_file p content w = call (WriteFile p content) (w\<lparr>files := (files w)(p \<mapsto> content)\<rparr>)"

text \<open>The file that a successful \<open>mkstemp\<close> has created and opened.\<close>

definition mkstemp_created :: "nat \<Rightarrow> string \<Rightarrow> world \<Rightarrow> world" where
  "mkstemp_created fd p w = w\<lparr>files := (files w)(p \<mapsto> ''''), open_fds := insert fd (open_fds w)\<rparr>"

text \<open>
  A path that is not a \<open>unicode\<close> object is decoded with the file system's encoding;
  bytes that the encoding rejects raise \<open>UnicodeDecodeError\<close>.
\<close>

definition filesystem2unicode :: "host \<Rightarrow> pystring \<Rightarrow> error + pystring" where
  "filesystem2unicode h path =
     (case path of
        Unicode u \<Rightarrow> Inr (Unicode u)
      | Str b \<Rightarrow>
          (case fs_decode h b of
             None \<Rightarrow> Inl (UnicodeDecodeError b)
           | Some u \<Rightarrow> Inr (Unicode u)))"

text \<open>
  \<open>os.path.join\<close> and \<open>os.path.abspath\<close> on the two string types: the join is a
  \<open>unicode\<close> object as soon as one component is (the byte strings that this module
  joins with \<open>unicode\<close> paths are its ASCII literals), and \<open>abspath\<close> keeps the type.
\<close>

definition path_join :: "host \<Rightarrow> pystring list \<Rightarrow> pystring" where
  "path_join h paths =
     (if list_ex is_unicode paths
      then Unicode (os_path_join h (map text_of paths))
      else Str (os_path_join h (map text_of paths)))"

definition path_abspath :: "host \<Rightarrow> pystring \<Rightarrow> pystring" where
  "path_abspath h path =
     (case path of
        Str b \<Rightarrow> Str (os_path_abspath h b)
      | Unicode u \<Rightarrow> Unicode (os_path_abspath h u))"

text \<open>\<open>str.lower()\<close> on the ASCII letters.\<close>

definition lower_char :: "char \<Rightarrow> char" where
  "lower_char c =
     (case map_of (zip ''ABCDEFGHIJKLMNOPQRSTUVWXYZ'' ''abcdefghijklmnopqrstuvwxyz'') c of
        Some l \<Rightarrow> l
      | None \<Rightarrow> c)"

definition lower :: "string \<Rightarrow> string" where
  "lower s = map lower_char s"

definition detect_openslides_type :: "host \<Rightarrow> string" where
  "detect_openslides_type h =
     (if platform h = ''win32''
      then (if lower (os_path_basename h (executable h)) = ''openslides.exe''
            then WINDOWS_PORTABLE_VERSION
            else WINDOWS_VERSION)
      else UNIX_VERSION)"

definition get_win32_app_data_path :: "host \<Rightarrow> error + pystring" where
  "get_win32_app_data_path h =
     (case SHGetFolderPath h of
        (res, buf) \<Rightarrow>
          if res \<noteq> 0 then Inl (Exception (''Could not determine Windows'' @ [CHR 0x27] @ '' APPDATA path''))
          else Inr (Unicode buf))"

definition get_win32_portable_path :: "host \<Rightarrow> world \<Rightarrow> (error + pystring) \<times> world" where
  "get_win32_portable_path h w =
     (case filesystem2unicode h (Str (os_path_dirname h (os_path_abspath h (executable h)))) of
        Inl e \<Rightarrow> (Inl e, w)
      | Inr portable_path \<Rightarrow>
          (let w1 = call (Mkstemp (text_of portable_path)) w
           in case mkstemp h (text_of portable_path) of
                None \<Rightarrow>
                  (Inl (PortableDirNotWritable
                     (''Portable directory is not writeable. '' @
                      ''Please choose another directory for settings and data files.'')), w1)
              | Some (fd, test_file) \<Rightarrow>
                  (Inr portable_path,
                   os_unlink test_file (os_close fd (mkstemp_created fd test_file w1)))))"

definition get_default_settings_path ::
  "host \<Rightarrow> string \<Rightarrow> world \<Rightarrow> (error + pystring) \<times> world"
where
  "get_default_settings_path h openslides_type w =
     (case
        (if openslides_type = UNIX_VERSION then
           (filesystem2unicode h
              (Str (case map_of (environ h) ''XDG_CONFIG_HOME'' of
                      Some v \<Rightarrow> v
                    | None \<Rightarrow> os_path_join h [os_path_expanduser h ''~'', ''.config''])), w)
         else if openslides_type = WINDOWS_VERSION then (get_win32_app_data_path h, w)
         else if openslides_type = WINDOWS_PORTABLE_VERSION then get_win32_portable_path h w
         else (Inl (TypeError (openslides_type @ '' is not a valid OpenSlides type.'')), w))
      of
        (Inl e, w') \<Rightarrow> (Inl e, w')
      | (Inr parent_directory, w') \<Rightarrow>
          (Inr (path_join h [parent_directory, Str ''openslides'', Str ''settings.py'']), w'))"

definition get_default_user_data_path ::
  "host \<Rightarrow> string \<Rightarrow> world \<Rightarrow> (error + pystring) \<times> world"
where
  "get_default_user_data_path h openslides_type w =
     (if openslides_type = UNIX_VERSION then
        (filesystem2unicode h
           (Str (case map_of (environ h) ''XDG_DATA_HOME'' of
                   Some v \<Rightarrow> v
                 | None \<Rightarrow> os_path_join h [os_path_expanduser h ''~'', ''.local'', ''share''])), w)
      else if openslides_type = WINDOWS_VERSION then (get_win32_app_data_path h, w)
      else if openslides_type = WINDOWS_PORTABLE_VERSION then get_win32_portable_path h w
      else (Inl (TypeError (openslides_type @ '' is not a valid OpenSlides type.'')), w))"

text \<open>The loop over \<open>variables\<close> in \<open>get_user_data_path_values_with_path\<close>.\<close>

fun path_values_loop ::
  "host \<Rightarrow> pystring \<Rightarrow> (string \<times> string) list \<Rightarrow> (string \<times> string) list
     \<Rightarrow> error + (string \<times> string) list"
where
  "path_values_loop h final_path [] user_data_path_values = Inr user_data_path_values"
| "path_values_loop h final_path ((key, val) # variables) user_data_path_values =
     (case filesystem2unicode h
             (path_join h
                (if CHR ''.'' \<notin> set val then [final_path, Str val, Str '''']
                 else [final_path, Str val])) of
        Inl e \<Rightarrow> Inl e
      | Inr path \<Rightarrow>
          path_values_loop h final_path variables
            (AList.update key (py_repr h (text_of path)) user_data_path_values))"

definition get_user_data_path_values_with_path ::
  "host \<Rightarrow> pystring list \<Rightarrow> error + (string \<times> string) list"
where
  "get_user_data_path_values_with_path h paths =
     (let final_path = path_abspath h (path_join h paths)
      in path_values_loop h final_path
           [(''database_path_value'', ''database.sqlite''),
            (''media_path_value'', ''media''),
            (''whoosh_index_path_value'', ''whoosh_index'')]
           [(''import_function'', '''')])"

definition get_user_data_path_values ::
  "host \<Rightarrow> pystring \<Rightarrow> bool \<Rightarrow> string option \<Rightarrow> error + (string \<times> string) list"
where
  "get_user_data_path_values h user_data_path dflt openslides_type =
     (if dflt \<and> openslides_type = Some WINDOWS_PORTABLE_VERSION
      then Inr
           [(''import_function'', ''from openslides.utils.main import get_portable_paths''),
            (''database_path_value'', ''get_portable_paths('' @ [CHR 0x27] @ ''database'' @ [CHR 0x27] @ '')''),
            (''media_path_value'', ''get_portable_paths('' @ [CHR 0x27] @ ''media'' @ [CHR 0x27] @ '')''),
            (''whoosh_index_path_value'',
               ''get_portable_paths('' @ [CHR 0x27] @ ''whoosh_index'' @ [CHR 0x27] @ '')'')]
      else get_user_data_path_values_with_path h [user_data_path, Str ''openslides''])"

text \<open>\<open>user_data_path\<close> is a path of either string type, or \<open>None\<close>.\<close>

definition get_default_settings_context ::
  "host \<Rightarrow> pystring option \<Rightarrow> world \<Rightarrow> (error + (string \<times> string) list) \<times> world"
where
  "get_default_settings_context h user_data_path w =
     (case
        (if user_data_path \<noteq> None \<and> map_option text_of user_data_path \<noteq> Some []
         then (get_user_data_path_values h
                 (case user_data_path of Some p \<Rightarrow> p | None \<Rightarrow> Str []) False None, w)
         else
           (let openslides_type = detect_openslides_type h
            in case get_default_user_data_path h openslides_type w of
                 (Inl e, w') \<Rightarrow> (Inl e, w')
               | (Inr user_data_path, w') \<Rightarrow>
                   (get_user_data_path_values h user_data_path True (Some openslides_type),
                    w')))
      of
        (Inl e, w') \<Rightarrow> (Inl e, w')
      | (Inr default_context, w') \<Rightarrow> (Inr (AList.update ''debug'' ''False'' default_context), w'))"

definition write_settings ::
  "host \<Rightarrow> string \<Rightarrow> string option \<Rightarrow> (string \<times> string) list \<Rightarrow> world \<Rightarrow> (error + unit) \<times> world"
where
  "write_settings h settings_path template context w =
     (case
        (case template of
           None \<Rightarrow>
             (case files w (os_path_join h [module_dir h, ''settings.py.tpl'']) of
                None \<Rightarrow> Inl (IOError (os_path_join h [module_dir h, ''settings.py.tpl'']))
              | Some text \<Rightarrow> Inr text)
         | Some text \<Rightarrow> Inr text)
      of
        Inl e \<Rightarrow> (Inl e, w)
      | Inr template \<Rightarrow>
          (let context =
                 (if map_of context ''secret_key'' = None
                  then AList.update ''secret_key'' (urandom_b64 h) context
                  else context)
           in case py_format h template context of
                Inl e \<Rightarrow> (Inl e, w)
              | Inr content \<Rightarrow>
                  (let settings_module = os_path_realpath h (os_path_dirname h settings_path);
                       w1 = (if \<not> os_path_exists w settings_module
                             then os_makedirs settings_module w else w)
                   in (Inr (), write_file settings_path content w1))))"

text \<open>
  \<open>settings\<close> is a path or \<open>None\<close>; \<open>args\<close> is the namespace of parsed arguments, as the
  list of its attributes, so that \<open>hasattr(args, 'user_data_path')\<close> is whether the
  attribute is in the list.
\<close>

definition ensure_settings ::
  "host \<Rightarrow> string option \<Rightarrow> (string \<times> pystring option) list \<Rightarrow> world \<Rightarrow> (error + unit) \<times> world"
where
  "ensure_settings h settings args w =
     (case settings of
        None \<Rightarrow> (Inr (), w)
      | Some path \<Rightarrow>
          if path \<noteq> [] \<and> \<not> os_path_exists w path then
            (case
               (case map_of args ''user_data_path'' of
                  None \<Rightarrow> get_default_settings_context h None w
                | Some user_data_path \<Rightarrow> get_default_settings_context h user_data_path w)
             of
               (Inl e, w1) \<Rightarrow> (Inl e, w1)
             | (Inr context, w1) \<Rightarrow>
                 (case write_settings h path None context w1 of
                    (Inl e, w2) \<Rightarrow> (Inl e, w2)
                  | (Inr u, w2) \<Rightarrow>
                      (Inr (),
                       call (Print (''Settings file at '' @ path @ '' successfully created.'')) w2)))
          else (Inr (), w))"

text \<open>
  The socket is created, bound and put to listen inside \<open>try\<close>; \<open>socket.error\<close> from
  either call selects port 8000, and \<open>finally\<close> closes the socket.
\<close>

definition get_port :: "host \<Rightarrow> string \<Rightarrow> int \<Rightarrow> world \<Rightarrow> int \<times> world" where
  "get_port h address port w =
     (if port = 80 then
        (let w1 = call (SocketBind address port) (call SocketNew w)
         in if socket_bind h address port
            then (let w2 = call (SocketListen (- 1)) w1
                  in if socket_listen h address port
                     then (port, call SocketClose w2)
                     else (8000, call SocketClose w2))
            else (8000, call SocketClose w1))
      else (port, w))"

text \<open>Django's \<open>DEFAULT_DB_ALIAS\<close>.\<close>

definition DEFAULT_DB_ALIAS :: string where
  "DEFAULT_DB_ALIAS = ''default''"

text \<open>
  \<open>DATABASES\<close> is the dictionary of the settings, from aliases to dictionaries of
  options. An empty dictionary is falsy, as \<open>None\<close> is.
\<close>

definition get_database_path_from_settings ::
  "(string \<times> (string \<times> pyval) list) list \<Rightarrow> error + pyval"
where
  "get_database_path_from_settings DATABASES =
     (case map_of DATABASES DEFAULT_DB_ALIAS of
        None \<Rightarrow> Inl (DatabaseInSettingsError ''Default databases is not configured'')
      | Some dflt \<Rightarrow>
          if dflt = [] then Inl (DatabaseInSettingsError ''Default databases is not configured'')
          else
            (case map_of dflt ''NAME'' of
               None \<Rightarrow> Inl (DatabaseInSettingsError ''No path specified for default database.'')
             | Some database_path \<Rightarrow>
                 if \<not> truthy database_path
                 then Inl (DatabaseInSettingsError ''No path specified for default database.'')
                 else if map_of dflt ''ENGINE'' \<noteq> Some (PyStr ''django.db.backends.sqlite3'')
                 then Inr PyNone
                 else Inr database_path))"

section \<open>mediafiles/projector.py\<close>

text \<open>
  \<open>all_data\<close> maps collection names to the elements of the collection by id;
  \<open>element\<close> and the result are dictionaries of values.
\<close>

definition mediafile_slide ::
  "(string \<times> (int \<times> (string \<times> pyval) list) list) list \<Rightarrow> (string \<times> pyval) list
     \<Rightarrow> (string \<times> pyval) list"
where
  "mediafile_slide all_data element = [(''error'', PyStr ''TODO'')]"

section \<open>Example hosts and inputs\<close>

text \<open>
  \<open>posixpath.join\<close>, \<open>basename\<close> and \<open>dirname\<close>, for the example hosts below.
\<close>

fun posix_join_loop :: "string \<Rightarrow> string list \<Rightarrow> string" where
  "posix_join_loop path [] = path"
| "posix_join_loop path (b # p) =
     posix_join_loop
       (if take 1 b = ''/'' then b
        else if path = [] \<or> take 1 (rev path) = ''/'' then path @ b
        else path @ ''/'' @ b) p"

definition posix_join :: "string list \<Rightarrow> string" where
  "posix_join paths = (case paths of [] \<Rightarrow> [] | a # p \<Rightarrow> posix_join_loop a p)"

definition posix_basename :: "string \<Rightarrow> string" where
  "posix_basename p = rev (takeWhile (\<lambda>c. c \<noteq> CHR ''/'') (rev p))"

definition posix_dirname :: "string \<Rightarrow> string" where
  "posix_dirname p =
     (let head = rev (dropWhile (\<lambda>c. c \<noteq> CHR ''/'') (rev p))
      in if head \<noteq> [] \<and> set head \<noteq> {CHR ''/''}
         then rev (dropWhile (\<lambda>c. c = CHR ''/'') (rev head))
         else head)"

text \<open>Decoding under the ASCII encoding: a byte with the high bit set is rejected.\<close>

definition ascii_decode :: "string \<Rightarrow> string option" where
  "ascii_decode b = (if list_ex digit7 b then None else Some b)"

text \<open>
  A Unix host on which neither the portable directory nor port 80 is available, and a
  host running the Windows portable version, on which the executable's directory is
  writable and port 80 can be bound but not listened on.
\<close>

definition unix_host :: host where
  "unix_host =
     \<lparr>platform = ''linux2'',
      executable = ''/usr/bin/python'',
      environ = [(''HOME'', ''/home/os'')],
      module_dir = ''/opt/openslides/utils'',
      os_path_expanduser = (\<lambda>p. if p = ''~'' then ''/home/os'' else p),
      os_path_join = posix_join,
      os_path_basename = posix_basename,
      os_path_dirname = posix_dirname,
      os_path_abspath = (\<lambda>p. p),
      os_path_realpath = (\<lambda>p. p),
      fs_decode = ascii_decode,
      py_repr = (\<lambda>s. ''u'' @ [CHR 0x27] @ s @ [CHR 0x27]),
      py_format = (\<lambda>template context. Inr template),
      urandom_b64 = ''c2VjcmV0'',
      SHGetFolderPath = (1, ''''),
      mkstemp = (\<lambda>dir. None),
      socket_bind = (\<lambda>address port. False),
      socket_listen = (\<lambda>address port. False)\<rparr>"

definition portable_host :: host where
  "portable_host =
     unix_host
       \<lparr>platform := ''win32'',
        executable := ''C:/OpenSlides/OpenSlides.exe'',
        environ := [],
        module_dir := ''C:/OpenSlides/openslides/utils'',
        SHGetFolderPath := (0, ''C:/Users/os/AppData/Local''),
        mkstemp := (\<lambda>dir. Some (3, dir @ ''/tmpk3x9'')),
        socket_bind := (\<lambda>address port. True),
        socket_listen := (\<lambda>address port. False)\<rparr>"

text \<open>
  A host running the Windows portable version from a directory whose name holds a
  byte that the file system's encoding rejects.
\<close>

definition undecodable_host :: host where
  "undecodable_host =
     portable_host
       \<lparr>executable := ''C:/Versammlung '' @ [CHR 0xFC] @ ''ber alles/openslides.exe''\<rparr>"

text \<open>A world with no files, and one that holds the settings template.\<close>

definition empty_world :: world where
  "empty_world = \<lparr>files = Map.empty, dirs = {}, open_fds = {}, calls = []\<rparr>"

text \<open>Settings with a SQLite database and with a PostgreSQL database.\<close>

definition sqlite_settings :: "(string \<times> (string \<times> pyval) list) list" where
  "sqlite_settings =
     [(''default'',
       [(''ENGINE'', PyStr ''django.db.backends.sqlite3''),
        (''NAME'', PyStr ''/home/os/.local/share/openslides/database.sqlite'')])]"

definition postgres_settings :: "(string \<times> (string \<times> pyval) list) list" where
  "postgres_settings =
     [(''default'',
       [(''ENGINE'', PyStr ''django.db.backends.postgresql_psycopg2''),
        (''NAME'', PyStr ''openslides'')])]"

text \<open>Whether an effectful call writes a file.\<close>

definition is_write :: "event \<Rightarrow> bool" where
  "is_write e = (case e of WriteFile p c \<Rightarrow> True | _ \<Rightarrow> False)"

definition template_world :: world where
  "template_world =
     \<lparr>files = [''/opt/openslides/utils/settings.py.tpl'' \<mapsto> ''DEBUG = %(debug)s''],
      dirs = {''/'', ''/home/os'', ''/opt/openslides/utils''},
      open_fds = {},
      calls = []\<rparr>"

section \<open>The migration: proofs\<close>

lemma transform_loop_result:
  assumes "distinct (map fst xs)"
    and "\<forall>(pk, r) \<in> set xs. has_field ''required_permission_to_see'' r"
  shows "\<exists>d'. transform_loop xs d = Inr d'
     \<and> map_of (state_table d') =
         (\<lambda>k. case map_of xs k of
                None \<Rightarrow> map_of (state_table d) k
              | Some r \<Rightarrow> if requires_permission r
                          then Some (AList.update ''access_level'' (PyInt 1) r)
                          else map_of (state_table d) k)
     \<and> save_calls d' = save_calls d @ map fst (filter (\<lambda>(pk, r). requires_permission r) xs)"
  using assms
proof (induction xs arbitrary: d)
  case Nil
  then show ?case by simp
next
  case (Cons x xs)
  obtain pk r where x: "x = (pk, r)" by (cases x)
  from Cons.prems x obtain v where v: "map_of r ''required_permission_to_see'' = Some v"
    by (auto simp: has_field_def)
  have dist: "distinct (map fst xs)" and rest: "\<forall>(pk, r) \<in> set xs. has_field ''required_permission_to_see'' r"
    and fresh: "map_of xs pk = None"
    using Cons.prems x by (auto simp: map_of_eq_None_iff)
  show ?case
  proof (cases "truthy v")
    case True
    let ?d1 = "save pk (AList.update ''access_level'' (PyInt 1) r) d"
    from Cons.IH[OF dist rest, of ?d1] obtain d' where
      d': "transform_loop xs ?d1 = Inr d'"
      "map_of (state_table d') =
         (\<lambda>k. case map_of xs k of
                None \<Rightarrow> map_of (state_table ?d1) k
              | Some r \<Rightarrow> if requires_permission r
                          then Some (AList.update ''access_level'' (PyInt 1) r)
                          else map_of (state_table ?d1) k)"
      "save_calls d' = save_calls ?d1 @ map fst (filter (\<lambda>(pk, r). requires_permission r) xs)"
      by blast
    have rp: "requires_permission r" using v True by (simp add: requires_permission_def)
    have "transform_loop (x # xs) d = Inr d'" using x v True d'(1) by simp
    moreover have "map_of (state_table d') =
         (\<lambda>k. case map_of (x # xs) k of
                None \<Rightarrow> map_of (state_table d) k
              | Some r \<Rightarrow> if requires_permission r
                          then Some (AList.update ''access_level'' (PyInt 1) r)
                          else map_of (state_table d) k)"
    proof
      fix k
      show "map_of (state_table d') k = (case map_of (x # xs) k of
                None \<Rightarrow> map_of (state_table d) k
              | Some r \<Rightarrow> if requires_permission r
                          then Some (AList.update ''access_level'' (PyInt 1) r)
                          else map_of (state_table d) k)"
        using d'(2) x rp fresh
        by (cases "k = pk") (auto simp: save_def update_conv' split: option.splits)
    qed
    moreover have "save_calls d' = save_calls d @ map fst (filter (\<lambda>(pk, r). requires_permission r) (x # xs))"
      using d'(3) x rp by (simp add: save_def)
    ultimately show ?thesis by blast
  next
    case False
    from Cons.IH[OF dist rest, of d] obtain d' where
      d': "transform_loop xs d = Inr d'"
      "map_of (state_table d') =
         (\<lambda>k. case map_of xs k of
                None \<Rightarrow> map_of (state_table d) k
              | Some r \<Rightarrow> if requires_permission r
                          then Some (AList.update ''access_level'' (PyInt 1) r)
                          else map_of (state_table d) k)"
      "save_calls d' = save_calls d @ map fst (filter (\<lambda>(pk, r). requires_permission r) xs)"
      by blast
    have rp: "\<not> requires_permission r" using v False by (simp add: requires_permission_def)
    have "transform_loop (x # xs) d = Inr d'" using x v False d'(1) by simp
    moreover have "map_of (state_table d') =
         (\<lambda>k. case map_of (x # xs) k of
                None \<Rightarrow> map_of (state_table d) k
              | Some r \<Rightarrow> if requires_permission r
                          then Some (AList.update ''access_level'' (PyInt 1) r)
                          else map_of (state_table d) k)"
    proof
      fix k
      show "map_of (state_table d') k = (case map_of (x # xs) k of
                None \<Rightarrow> map_of (state_table d) k
              | Some r \<Rightarrow> if requires_permission r
                          then Some (AList.update ''access_level'' (PyInt 1) r)
                          else map_of (state_table d) k)"
        using d'(2) x rp fresh
        by (cases "k = pk") (auto split: option.splits)
    qed
    moreover have "save_calls d' = save_calls d @ map fst (filter (\<lambda>(pk, r). requires_permission r) (x # xs))"
      using d'(3) x rp by simp
    ultimately show ?thesis by blast
  qed
qed

lemma add_field_table:
  "apply_operation (AddField ''state'' name f) d =
     Inr (d\<lparr>state_table := map (\<lambda>(pk, r). (pk, AList.update name (PyInt (default_value f)) r)) (state_table d)\<rparr>)"
  by simp

lemma fst_comp_on_rows: "fst \<circ> (\<lambda>(pk, r). (pk, g r)) = fst"
  by (auto simp: fun_eq_iff)

lemma map_of_map_snd: "map_of (map (\<lambda>(pk, r). (pk, g r)) t) k = map_option g (map_of t k)"
  by (induction t) auto

lemma has_field_update_other:
  "has_field name (AList.update name' v r) = (name = name' \<or> has_field name r)"
  by (simp add: has_field_def update_conv')

lemma requires_permission_update:
  "requires_permission (AList.update ''access_level'' v r) = requires_permission r"
  by (simp add: requires_permission_def update_conv')

lemma count_saved_absent:
  "pk \<notin> fst ` set t \<Longrightarrow> count_list (map fst (filter Q t)) pk = 0"
  by (induction t) auto

lemma count_saved_distinct:
  "distinct (map fst t) \<Longrightarrow> (pk, r) \<in> set t \<Longrightarrow>
     count_list (map fst (filter (\<lambda>(k, s). P s) t)) pk = (if P r then 1 else 0)"
proof (induction t)
  case Nil
  then show ?case by simp
next
  case (Cons x t)
  show ?case
  proof (cases "x = (pk, r)")
    case True
    with Cons.prems have "pk \<notin> fst ` set t" by auto
    from count_saved_absent[OF this, of "\<lambda>(k, s). P s"] True show ?thesis by simp
  next
    case False
    with Cons.prems have "(pk, r) \<in> set t" "distinct (map fst t)" "fst x \<noteq> pk"
      by (auto simp: rev_image_eqI)
    with Cons.IH show ?thesis by (cases x) auto
  qed
qed

text \<open>
  Claim C1. For every row of the State table (primary keys distinct, every row with
  the \<open>required_permission_to_see\<close> column), adding the \<open>access_level\<close> field and
  running the transform succeed, and afterwards: if the row's
  \<open>required_permission_to_see\<close> is truthy, its \<open>access_level\<close> is 1 and the transform
  saved it once; if it is falsy, the transform did not save it, the row is as
  \<open>AddField\<close> left it, and its \<open>access_level\<close> is the default 0.
\<close>

theorem transform_sets_access_level:
  assumes dist: "distinct (map fst (state_table d))"
    and fields: "\<forall>(k, s) \<in> set (state_table d). has_field ''required_permission_to_see'' s"
    and row: "(pk, r) \<in> set (state_table d)"
  shows "\<exists>d1 d2.
      apply_operation (AddField ''state'' ''access_level'' access_level_field) d = Inr d1
    \<and> transform_required_permission_to_see_field d1 = Inr d2
    \<and> (if requires_permission r
       then field_of d2 pk ''access_level'' = Some (PyInt 1)
          \<and> count_list (save_calls d2) pk = count_list (save_calls d1) pk + 1
       else field_of d2 pk ''access_level'' = Some (PyInt 0)
          \<and> map_of (state_table d2) pk = map_of (state_table d1) pk
          \<and> count_list (save_calls d2) pk = count_list (save_calls d1) pk)"
proof -
  let ?g = "AList.update ''access_level'' (PyInt (default_value access_level_field))"
  let ?d1 = "d\<lparr>state_table := map (\<lambda>(pk, r). (pk, ?g r)) (state_table d)\<rparr>"
  have a: "apply_operation (AddField ''state'' ''access_level'' access_level_field) d = Inr ?d1"
    by simp
  have dist1: "distinct (map fst (state_table ?d1))"
    using dist by (simp add: fst_comp_on_rows)
  have fields1: "\<forall>(k, s) \<in> set (state_table ?d1). has_field ''required_permission_to_see'' s"
    using fields by (auto simp: has_field_update_other)
  from transform_loop_result[OF dist1 fields1, of ?d1] obtain d2 where
    d2: "transform_loop (state_table ?d1) ?d1 = Inr d2"
    and tab: "map_of (state_table d2) =
         (\<lambda>k. case map_of (state_table ?d1) k of
                None \<Rightarrow> map_of (state_table ?d1) k
              | Some r \<Rightarrow> if requires_permission r
                          then Some (AList.update ''access_level'' (PyInt 1) r)
                          else map_of (state_table ?d1) k)"
    and log: "save_calls d2 = save_calls ?d1 @ map fst (filter (\<lambda>(pk, r). requires_permission r) (state_table ?d1))"
    by blast
  have look: "map_of (state_table d) pk = Some r"
    using dist row by simp
  have look1: "map_of (state_table ?d1) pk = Some (?g r)"
    using look by (simp add: map_of_map_snd)
  have row1: "(pk, ?g r) \<in> set (state_table ?d1)"
    using row by force
  have cnt: "count_list (map fst (filter (\<lambda>(pk, r). requires_permission r) (state_table ?d1))) pk
      = (if requires_permission r then 1 else 0)"
    using count_saved_distinct[OF dist1 row1, of requires_permission]
    by (simp add: requires_permission_update)
  have t: "transform_required_permission_to_see_field ?d1 = Inr d2"
    using d2 by (simp add: transform_required_permission_to_see_field_def)
  show ?thesis
  proof (cases "requires_permission r")
    case True
    have "field_of d2 pk ''access_level'' = Some (PyInt 1)"
      using tab look1 True by (simp add: field_of_def requires_permission_update update_conv')
    moreover have "count_list (save_calls d2) pk = count_list (save_calls ?d1) pk + 1"
      using log cnt True by simp
    ultimately show ?thesis using a t True by auto
  next
    case False
    have "field_of d2 pk ''access_level'' = Some (PyInt 0)"
      using tab look1 False
      by (simp add: field_of_def requires_permission_update update_conv' access_level_field_def)
    moreover have "map_of (state_table d2) pk = map_of (state_table ?d1) pk"
      using tab look1 False by (simp add: requires_permission_update)
    moreover have "count_list (save_calls d2) pk = count_list (save_calls ?d1) pk"
      using log cnt False by simp
    ultimately show ?thesis using a t False by auto
  qed
qed

lemma choices_values: "fst ` set (choices access_level_field) = {0, 1, 2, 3}"
  by (auto simp: access_level_field_def)

lemma valid_access_level_update:
  "l \<in> {0, 1, 2, 3} \<Longrightarrow> valid_access_level (AList.update ''access_level'' (PyInt l) r)"
  by (auto simp: valid_access_level_def update_conv' access_level_field_def)

lemma valid_access_level_delete:
  "valid_access_level (AList.delete ''required_permission_to_see'' r) = valid_access_level r"
  by (simp add: valid_access_level_def)

lemma set_update_cases: "x \<in> set (AList.update k v t) \<Longrightarrow> x = (k, v) \<or> x \<in> set t"
  by (induction t) (auto split: if_splits)

lemma transform_loop_valid:
  assumes "transform_loop xs d = Inr d'"
    and "\<forall>(pk, r) \<in> set xs. valid_access_level r"
    and "\<forall>(pk, r) \<in> set (state_table d). valid_access_level r"
  shows "\<forall>(pk, r) \<in> set (state_table d'). valid_access_level r"
  using assms
proof (induction xs d rule: transform_loop.induct)
  case (1 d)
  then show ?case by simp
next
  case (2 pk state rest d)
  from "2.prems"(1) obtain v where v: "map_of state ''required_permission_to_see'' = Some v"
    by (auto split: option.splits)
  have rest: "\<forall>(pk, r) \<in> set rest. valid_access_level r" using "2.prems"(2) by simp
  show ?case
  proof (cases "truthy v")
    case True
    let ?d1 = "save pk (AList.update ''access_level'' (PyInt 1) state) d"
    have run: "transform_loop rest ?d1 = Inr d'" using "2.prems"(1) v True by simp
    have "\<forall>(pk, r) \<in> set (state_table ?d1). valid_access_level r"
      using "2.prems"(3) valid_access_level_update[of 1 state]
      by (auto simp: save_def dest!: set_update_cases)
    from "2.IH"(1)[OF v True run rest this] show ?thesis .
  next
    case False
    have run: "transform_loop rest d = Inr d'" using "2.prems"(1) v False by simp
    from "2.IH"(2)[OF v False run rest "2.prems"(3)] show ?thesis .
  qed
qed

lemma add_field_valid:
  "apply_operation (AddField ''state'' ''access_level'' access_level_field) d = Inr d1 \<Longrightarrow>
     \<forall>(pk, r) \<in> set (state_table d1). valid_access_level r"
  using valid_access_level_update[of 0]
  by (auto simp: access_level_field_def)

lemma transform_valid:
  assumes "transform_required_permission_to_see_field d = Inr d'"
    and "\<forall>(pk, r) \<in> set (state_table d). valid_access_level r"
  shows "\<forall>(pk, r) \<in> set (state_table d'). valid_access_level r"
  using transform_loop_valid[of "state_table d" d d'] assms
  by (simp add: transform_required_permission_to_see_field_def)

lemma remove_field_valid:
  assumes "apply_operation (RemoveField ''state'' ''required_permission_to_see'') d = Inr d'"
    and "\<forall>(pk, r) \<in> set (state_table d). valid_access_level r"
  shows "\<forall>(pk, r) \<in> set (state_table d'). valid_access_level r"
  using assms by (fastforce simp: valid_access_level_delete)

lemma take_operations:
  "take n operations =
     (if n = 0 then []
      else if n = 1 then [AddField ''state'' ''access_level'' access_level_field]
      else if n = 2 then [AddField ''state'' ''access_level'' access_level_field,
                          RunPython transform_required_permission_to_see_field]
      else operations)"
proof -
  consider "n = 0" | "n = 1" | "n = 2" | "3 \<le> n" by linarith
  then show ?thesis
    by cases (simp_all add: operations_def numeral_2_eq_2)
qed

text \<open>
  Claim C2. After the first operation of the migration, after the first two, and after
  the whole migration, the \<open>access_level\<close> of every row of the State table is an
  integer among the declared choices, which are 0, 1, 2 and 3.
\<close>

theorem access_level_in_choices:
  assumes run: "apply_operations (take n operations) d = Inr d'"
    and n: "1 \<le> n"
    and row: "(pk, r) \<in> set (state_table d')"
  shows "\<exists>l. map_of r ''access_level'' = Some (PyInt l)
            \<and> l \<in> fst ` set (choices access_level_field) \<and> l \<in> {0, 1, 2, 3}"
proof -
  let ?add = "AddField ''state'' ''access_level'' access_level_field"
  let ?run = "RunPython transform_required_permission_to_see_field"
  let ?rem = "RemoveField ''state'' ''required_permission_to_see''"
  obtain d1 where d1: "apply_operation ?add d = Inr d1" by simp
  have v1: "\<forall>(pk, r) \<in> set (state_table d1). valid_access_level r"
    using add_field_valid[OF d1] .
  have "\<forall>(pk, r) \<in> set (state_table d'). valid_access_level r"
  proof -
    consider "n = 1" | "n = 2" | "3 \<le> n" using n by linarith
    then show ?thesis
    proof cases
      case 1
      with run d1 have "d' = d1" by (simp add: take_operations)
      with v1 show ?thesis by simp
    next
      case 2
      with run d1 have "transform_required_permission_to_see_field d1 = Inr d'"
        by (simp add: take_operations split: sum.splits)
      from transform_valid[OF this v1] show ?thesis .
    next
      case 3
      with run d1 obtain d2 where d2: "transform_required_permission_to_see_field d1 = Inr d2"
        and d3: "apply_operation ?rem d2 = Inr d'"
        by (cases "transform_required_permission_to_see_field d1")
           (simp_all add: take_operations operations_def split: sum.splits)
      from remove_field_valid[OF d3 transform_valid[OF d2 v1]] show ?thesis .
    qed
  qed
  with row have "valid_access_level r" by auto
  then show ?thesis
    unfolding choices_values[symmetric]
    by (auto simp: valid_access_level_def split: option.splits pyval.splits)
qed

lemma Migration_example_db: "Migration example_db = Inr migrated_example_db"
  by (simp add: Migration_def operations_def example_db_def migrated_example_db_def
      transform_required_permission_to_see_field_def save_def access_level_field_def
      AList.delete_eq)

lemma Migration_example_db': "Migration example_db' = Inr migrated_example_db"
  by (simp add: Migration_def operations_def example_db'_def migrated_example_db_def
      transform_required_permission_to_see_field_def save_def access_level_field_def
      AList.delete_eq)

lemma transform_loop_succeeds:
  "\<forall>(pk, r) \<in> set xs. has_field ''required_permission_to_see'' r \<Longrightarrow>
     \<exists>d'. transform_loop xs d = Inr d'"
  by (induction xs d rule: transform_loop.induct) (auto simp: has_field_def)

lemma Migration_unfold:
  "Migration d =
     (case apply_operation (AddField ''state'' ''access_level'' access_level_field) d of
        Inl e \<Rightarrow> Inl e
      | Inr d1 \<Rightarrow>
          (case transform_required_permission_to_see_field d1 of
             Inl e \<Rightarrow> Inl e
           | Inr d2 \<Rightarrow> apply_operation (RemoveField ''state'' ''required_permission_to_see'') d2))"
  by (simp add: Migration_def operations_def split: sum.splits)

lemma Migration_succeeds:
  assumes "\<forall>(pk, r) \<in> set (state_table d). has_field ''required_permission_to_see'' r"
  shows "\<exists>d'. Migration d = Inr d'"
proof -
  let ?d1 = "d\<lparr>state_table := map (\<lambda>(pk, r). (pk, AList.update ''access_level''
                 (PyInt (default_value access_level_field)) r)) (state_table d)\<rparr>"
  have "\<forall>(pk, r) \<in> set (state_table ?d1). has_field ''required_permission_to_see'' r"
    using assms by (auto simp: has_field_update_other)
  from transform_loop_succeeds[OF this, of ?d1] obtain d2 where
    "transform_required_permission_to_see_field ?d1 = Inr d2"
    by (auto simp: transform_required_permission_to_see_field_def)
  then show ?thesis by (simp add: Migration_unfold)
qed

lemma transform_loop_keeps_fields:
  assumes "transform_loop xs d = Inr d'"
    and "\<forall>(pk, r) \<in> set xs. has_field name r"
    and "\<forall>(pk, r) \<in> set (state_table d). has_field name r"
  shows "\<forall>(pk, r) \<in> set (state_table d'). has_field name r"
  using assms
proof (induction xs d rule: transform_loop.induct)
  case (1 d)
  then show ?case by simp
next
  case (2 pk state rest d)
  from "2.prems"(1) obtain v where v: "map_of state ''required_permission_to_see'' = Some v"
    by (auto split: option.splits)
  have rest: "\<forall>(pk, r) \<in> set rest. has_field name r" using "2.prems"(2) by simp
  show ?case
  proof (cases "truthy v")
    case True
    let ?d1 = "save pk (AList.update ''access_level'' (PyInt 1) state) d"
    have run: "transform_loop rest ?d1 = Inr d'" using "2.prems"(1) v True by simp
    have "has_field name (AList.update ''access_level'' (PyInt 1) state)"
      using "2.prems"(2) by (simp add: has_field_update_other)
    then have "\<forall>(pk, r) \<in> set (state_table ?d1). has_field name r"
      using "2.prems"(3) by (auto simp: save_def dest!: set_update_cases)
    from "2.IH"(1)[OF v True run rest this] show ?thesis .
  next
    case False
    have run: "transform_loop rest d = Inr d'" using "2.prems"(1) v False by simp
    from "2.IH"(2)[OF v False run rest "2.prems"(3)] show ?thesis .
  qed
qed

lemma Migration_fields:
  assumes "Migration d = Inr d'" and "(pk, r) \<in> set (state_table d')"
  shows "\<not> has_field ''required_permission_to_see'' r \<and> has_field ''access_level'' r"
proof -
  let ?add = "AddField ''state'' ''access_level'' access_level_field"
  let ?rem = "RemoveField ''state'' ''required_permission_to_see''"
  obtain d1 where d1: "apply_operation ?add d = Inr d1" by simp
  with assms(1) obtain d2 where d2: "transform_required_permission_to_see_field d1 = Inr d2"
    and d3: "apply_operation ?rem d2 = Inr d'"
    by (cases "transform_required_permission_to_see_field d1") (simp_all add: Migration_unfold)
  have "\<forall>(pk, r) \<in> set (state_table d1). has_field ''access_level'' r"
    using d1 by (auto simp: has_field_update_other)
  with d2 have "\<forall>(pk, r) \<in> set (state_table d2). has_field ''access_level'' r"
    using transform_loop_keeps_fields[of "state_table d1" d1 d2 "''access_level''"]
    by (simp add: transform_required_permission_to_see_field_def)
  with d3 assms(2) show ?thesis
    by (fastforce simp: has_field_def delete_conv')
qed

lemma example_dbs_differ: "example_db \<noteq> example_db'"
  by (simp add: example_db_def example_db'_def)

text \<open>
  Claim C3. The migration's operations are, in this order: add the \<open>access_level\<close>
  integer field with default 0, run the transform, remove the
  \<open>required_permission_to_see\<close> field; the migration is their sequential composition
  and succeeds when every row has the source field. Afterwards no row has the source
  field and every row has \<open>access_level\<close>. Two different tables are migrated to the
  same table, so no function recovers the original table from the migrated one.
\<close>

theorem migration_order_irreversible:
  "operations =
     [AddField ''state'' ''access_level'' access_level_field,
      RunPython transform_required_permission_to_see_field,
      RemoveField ''state'' ''required_permission_to_see'']
   \<and> default_value access_level_field = 0
   \<and> Migration d =
       (case apply_operation (AddField ''state'' ''access_level'' access_level_field) d of
          Inl e \<Rightarrow> Inl e
        | Inr d1 \<Rightarrow>
            (case transform_required_permission_to_see_field d1 of
               Inl e \<Rightarrow> Inl e
             | Inr d2 \<Rightarrow>
                 apply_operation (RemoveField ''state'' ''required_permission_to_see'') d2))
   \<and> ((\<forall>(pk, r) \<in> set (state_table d). has_field ''required_permission_to_see'' r)
        \<longrightarrow> (\<exists>d'. Migration d = Inr d'))
   \<and> (\<forall>d'. Migration d = Inr d' \<longrightarrow>
         (\<forall>(pk, r) \<in> set (state_table d').
            \<not> has_field ''required_permission_to_see'' r \<and> has_field ''access_level'' r))
   \<and> (\<exists>a b c. a \<noteq> b \<and> Migration a = Inr c \<and> Migration b = Inr c)
   \<and> \<not> (\<exists>undo. \<forall>a c. Migration a = Inr c \<longrightarrow> undo c = a)"
proof -
  have inj: "\<exists>a b c. a \<noteq> b \<and> Migration a = Inr c \<and> Migration b = Inr c"
    using example_dbs_differ Migration_example_db Migration_example_db' by blast
  have "\<not> (\<exists>undo. \<forall>a c. Migration a = Inr c \<longrightarrow> undo c = a)"
  proof
    assume "\<exists>undo. \<forall>a c. Migration a = Inr c \<longrightarrow> undo c = a"
    then obtain undo where u: "\<And>a c. Migration a = Inr c \<Longrightarrow> undo c = a" by blast
    from u[OF Migration_example_db] u[OF Migration_example_db'] example_dbs_differ
    show False by simp
  qed
  moreover have "\<forall>d'. Migration d = Inr d' \<longrightarrow>
         (\<forall>(pk, r) \<in> set (state_table d').
            \<not> has_field ''required_permission_to_see'' r \<and> has_field ''access_level'' r)"
    using Migration_fields[of d] by blast
  moreover have "default_value access_level_field = 0"
    by (simp add: access_level_field_def)
  ultimately show ?thesis
    using inj Migration_unfold[of d] Migration_succeeds[of d] operations_def by blast
qed

theorem migration_order_irreversible_witness:
  "Migration example_db = Inr migrated_example_db
   \<and> list_all (\<lambda>(pk, r). \<not> has_field ''required_permission_to_see'' r
                          \<and> has_field ''access_level'' r)
        (state_table migrated_example_db)"
  using migration_order_irreversible[of example_db] Migration_example_db
  by (simp add: example_db_def has_field_def list_all_iff)

theorem transform_sets_access_level_witness:
  "(\<exists>d1 d2.
      apply_operation (AddField ''state'' ''access_level'' access_level_field) example_db = Inr d1
    \<and> transform_required_permission_to_see_field d1 = Inr d2
    \<and> field_of d2 1 ''access_level'' = Some (PyInt 0)
    \<and> map_of (state_table d2) 1 = map_of (state_table d1) 1
    \<and> count_list (save_calls d2) 1 = count_list (save_calls d1) 1)
   \<and> (\<exists>d1 d2.
      apply_operation (AddField ''state'' ''access_level'' access_level_field) example_db = Inr d1
    \<and> transform_required_permission_to_see_field d1 = Inr d2
    \<and> field_of d2 2 ''access_level'' = Some (PyInt 1)
    \<and> count_list (save_calls d2) 2 = count_list (save_calls d1) 2 + 1)"
  using
    transform_sets_access_level[of example_db 1
      "[(''name'', PyStr ''submitted''), (''required_permission_to_see'', PyStr '''')]"]
    transform_sets_access_level[of example_db 2
      "[(''name'', PyStr ''rejected''),
        (''required_permission_to_see'', PyStr ''motions.can_manage'')]"]
  by (simp add: example_db_def has_field_def requires_permission_def)

theorem access_level_in_choices_witness:
  "apply_operations (take 3 operations) example_db = Inr migrated_example_db
   \<and> (1::nat) \<le> 3
   \<and> (2, [(''name'', PyStr ''rejected''), (''access_level'', PyInt 1)])
        \<in> set (state_table migrated_example_db)
   \<and> (\<exists>l. map_of [(''name'', PyStr ''rejected''), (''access_level'', PyInt 1)] ''access_level''
            = Some (PyInt l)
          \<and> l \<in> fst ` set (choices access_level_field) \<and> l \<in> {0, 1, 2, 3})"
proof -
  have run: "apply_operations (take 3 operations) example_db = Inr migrated_example_db"
    using Migration_example_db by (simp add: Migration_def operations_def)
  have row: "(2, [(''name'', PyStr ''rejected''), (''access_level'', PyInt 1)])
        \<in> set (state_table migrated_example_db)"
    by (simp add: migrated_example_db_def)
  from access_level_in_choices[OF run _ row] run row show ?thesis by simp
qed

section \<open>utils/main.py and mediafiles/projector.py: proofs\<close>

lemma lower_example: "lower ''OpenSlides.exe'' = ''openslides.exe''"
  by (simp add: lower_def lower_char_def)

lemma basename_example: "posix_basename ''C:/OpenSlides/OpenSlides.exe'' = ''OpenSlides.exe''"
  by (simp add: posix_basename_def)

lemma dirname_example: "posix_dirname ''C:/OpenSlides/OpenSlides.exe'' = ''C:/OpenSlides''"
  by (simp add: posix_dirname_def)

lemma version_constants_distinct:
  "distinct [UNIX_VERSION, WINDOWS_VERSION, WINDOWS_PORTABLE_VERSION]"
  by (simp add: UNIX_VERSION_def WINDOWS_VERSION_def WINDOWS_PORTABLE_VERSION_def)

text \<open>
  Claim C8. \<open>detect_openslides_type\<close> returns one of the three version constants, which
  are pairwise different: the Windows portable version if and only if the platform is
  \<open>win32\<close> and the lower-cased basename of \<open>sys.executable\<close> is \<open>openslides.exe\<close>, the
  Windows version if and only if the platform is \<open>win32\<close> and it is not, and the Unix
  version if and only if the platform is not \<open>win32\<close>.
\<close>

theorem detect_openslides_type_cases:
  "detect_openslides_type h \<in> {UNIX_VERSION, WINDOWS_VERSION, WINDOWS_PORTABLE_VERSION}
   \<and> distinct [UNIX_VERSION, WINDOWS_VERSION, WINDOWS_PORTABLE_VERSION]
   \<and> (detect_openslides_type h = WINDOWS_PORTABLE_VERSION \<longleftrightarrow>
        platform h = ''win32'' \<and> lower (os_path_basename h (executable h)) = ''openslides.exe'')
   \<and> (detect_openslides_type h = WINDOWS_VERSION \<longleftrightarrow>
        platform h = ''win32'' \<and> lower (os_path_basename h (executable h)) \<noteq> ''openslides.exe'')
   \<and> (detect_openslides_type h = UNIX_VERSION \<longleftrightarrow> platform h \<noteq> ''win32'')"
  using version_constants_distinct by (auto simp: detect_openslides_type_def)

lemma portable_host_detect:
  "platform portable_host = ''win32''"
  "lower (os_path_basename portable_host (executable portable_host)) = ''openslides.exe''"
  by (simp_all add: portable_host_def unix_host_def basename_example lower_example)

lemma python_host_detect:
  "platform (portable_host\<lparr>executable := ''C:/Python27/python.exe''\<rparr>) = ''win32''"
  "lower (os_path_basename (portable_host\<lparr>executable := ''C:/Python27/python.exe''\<rparr>)
            (executable (portable_host\<lparr>executable := ''C:/Python27/python.exe''\<rparr>)))
     = ''python.exe''"
  by (simp_all add: portable_host_def unix_host_def posix_basename_def lower_def lower_char_def)

lemma unix_host_platform: "platform unix_host = ''linux2''"
  by (simp add: unix_host_def)

theorem detect_openslides_type_cases_witness:
  "detect_openslides_type portable_host = WINDOWS_PORTABLE_VERSION
   \<and> detect_openslides_type (portable_host\<lparr>executable := ''C:/Python27/python.exe''\<rparr>)
       = WINDOWS_VERSION
   \<and> detect_openslides_type unix_host = UNIX_VERSION"
  using detect_openslides_type_cases[of portable_host]
    detect_openslides_type_cases[of "portable_host\<lparr>executable := ''C:/Python27/python.exe''\<rparr>"]
    detect_openslides_type_cases[of unix_host]
  by (simp only: portable_host_detect python_host_detect unix_host_platform) simp

text \<open>
  Claim C9. \<open>mediafile_slide\<close> returns the dictionary \<open>{"error": "TODO"}\<close> for every
  \<open>all_data\<close> and \<open>element\<close>, so its result depends on neither; it is a function of its
  arguments alone, with no state to change.
\<close>

theorem mediafile_slide_constant:
  "mediafile_slide all_data element = [(''error'', PyStr ''TODO'')]
   \<and> mediafile_slide all_data element = mediafile_slide all_data' element'"
  by (simp add: mediafile_slide_def)

subsection \<open>get\_port\<close>

text \<open>
  Claim C4, as amended. For every address and port: when the port is 80 and the bind
  raises a socket error, \<open>get_port\<close> returns 8000; when the port is 80, the bind
  succeeds and the listen raises a socket error, it returns 8000 as well; when the port
  is 80 and both succeed, it returns 80; in all three cases the socket is closed. For
  every other port it returns the port and makes no call at all, so it attempts no bind.
\<close>

theorem get_port_cases:
  "(port = 80 \<and> \<not> socket_bind h address 80 \<longrightarrow>
      get_port h address port w
        = (8000, w\<lparr>calls := calls w @ [SocketNew, SocketBind address 80, SocketClose]\<rparr>))
   \<and> (port = 80 \<and> socket_bind h address 80 \<and> \<not> socket_listen h address 80 \<longrightarrow>
      get_port h address port w
        = (8000, w\<lparr>calls := calls w @
             [SocketNew, SocketBind address 80, SocketListen (- 1), SocketClose]\<rparr>))
   \<and> (port = 80 \<and> socket_bind h address 80 \<and> socket_listen h address 80 \<longrightarrow>
      get_port h address port w
        = (80, w\<lparr>calls := calls w @
             [SocketNew, SocketBind address 80, SocketListen (- 1), SocketClose]\<rparr>))
   \<and> (port \<noteq> 80 \<longrightarrow> get_port h address port w = (port, w))"
  by (simp add: get_port_def call_def Let_def)

lemma portable_host_sockets:
  "socket_bind portable_host a p" "\<not> socket_listen portable_host a p"
  "\<not> socket_bind unix_host a p"
  by (simp_all add: portable_host_def unix_host_def)

text \<open>
  Claim C4 as stated says that port 80 is returned whenever the bind succeeds. On a host
  where the bind to port 80 succeeds and the listen raises a socket error, \<open>get_port\<close>
  returns 8000.
\<close>

theorem get_port_counterexample:
  "socket_bind portable_host ''0.0.0.0'' 80
   \<and> fst (get_port portable_host ''0.0.0.0'' 80 empty_world) = 8000
   \<and> fst (get_port portable_host ''0.0.0.0'' 80 empty_world) \<noteq> 80"
  by (simp add: get_port_def Let_def portable_host_sockets)

theorem get_port_cases_witness:
  "get_port unix_host ''0.0.0.0'' 80 empty_world
     = (8000, empty_world\<lparr>calls := [SocketNew, SocketBind ''0.0.0.0'' 80, SocketClose]\<rparr>)
   \<and> get_port portable_host ''0.0.0.0'' 80 empty_world
     = (8000, empty_world\<lparr>calls :=
          [SocketNew, SocketBind ''0.0.0.0'' 80, SocketListen (- 1), SocketClose]\<rparr>)
   \<and> get_port (portable_host\<lparr>socket_listen := (\<lambda>address port. True)\<rparr>) ''0.0.0.0'' 80 empty_world
     = (80, empty_world\<lparr>calls :=
          [SocketNew, SocketBind ''0.0.0.0'' 80, SocketListen (- 1), SocketClose]\<rparr>)
   \<and> get_port unix_host ''0.0.0.0'' 8080 empty_world = (8080, empty_world)"
  using get_port_cases[of 80 unix_host "''0.0.0.0''" empty_world]
    get_port_cases[of 80 portable_host "''0.0.0.0''" empty_world]
    get_port_cases[of 80 "portable_host\<lparr>socket_listen := (\<lambda>address port. True)\<rparr>"
       "''0.0.0.0''" empty_world]
    get_port_cases[of 8080 unix_host "''0.0.0.0''" empty_world]
  by (simp add: portable_host_sockets empty_world_def)

subsection \<open>get\_win32\_portable\_path\<close>

text \<open>
  Claim C5. \<open>get_win32_portable_path\<close> raises \<open>PortableDirNotWritable\<close> if and only if
  it attempts to create the temporary file in the directory of \<open>sys.executable\<close> and
  the creation raises \<open>OSError\<close>. When the creation succeeds, the function returns that
  directory, decoded, having closed the descriptor and deleted the file: it made the
  three calls \<open>mkstemp\<close>, \<open>close\<close>, \<open>unlink\<close> and left no other change. The one other
  outcome is that the name of the directory cannot be decoded: then
  \<open>UnicodeDecodeError\<close> is raised before any file is created.
\<close>

theorem get_win32_portable_path_cases:
  "((\<exists>msg. fst (get_win32_portable_path h w) = Inl (PortableDirNotWritable msg)) \<longleftrightarrow>
      (\<exists>u. fs_decode h (os_path_dirname h (os_path_abspath h (executable h))) = Some u
          \<and> mkstemp h u = None))
   \<and> (\<forall>u fd test_file.
         fs_decode h (os_path_dirname h (os_path_abspath h (executable h))) = Some u
           \<and> mkstemp h u = Some (fd, test_file) \<longrightarrow>
         (\<exists>w'. get_win32_portable_path h w = (Inr (Unicode u), w')
              \<and> fd \<notin> open_fds w' \<and> files w' test_file = None
              \<and> files w' = (files w)(test_file := None)
              \<and> open_fds w' = open_fds w - {fd}
              \<and> dirs w' = dirs w
              \<and> calls w' = calls w @ [Mkstemp u, OsClose fd, OsUnlink test_file]))
   \<and> (fs_decode h (os_path_dirname h (os_path_abspath h (executable h))) = None \<longrightarrow>
         get_win32_portable_path h w
           = (Inl (UnicodeDecodeError (os_path_dirname h (os_path_abspath h (executable h)))), w))
   \<and> (\<forall>u. fs_decode h (os_path_dirname h (os_path_abspath h (executable h))) = Some u
           \<and> mkstemp h u = None \<longrightarrow>
         (\<exists>msg. get_win32_portable_path h w
                  = (Inl (PortableDirNotWritable msg), w\<lparr>calls := calls w @ [Mkstemp u]\<rparr>)))"
  by (auto simp: get_win32_portable_path_def filesystem2unicode_def Let_def call_def
      os_unlink_def os_close_def mkstemp_created_def split: option.splits)

lemma portable_host_mkstemp:
  "os_path_dirname portable_host (os_path_abspath portable_host (executable portable_host))
     = ''C:/OpenSlides''"
  "fs_decode portable_host ''C:/OpenSlides'' = Some ''C:/OpenSlides''"
  "mkstemp portable_host ''C:/OpenSlides'' = Some (3, ''C:/OpenSlides/tmpk3x9'')"
  by (simp_all add: portable_host_def unix_host_def dirname_example ascii_decode_def)

lemma undecodable_host_dirname:
  "os_path_dirname undecodable_host
     (os_path_abspath undecodable_host (executable undecodable_host))
     = ''C:/Versammlung '' @ [CHR 0xFC] @ ''ber alles''"
  "fs_decode undecodable_host
     (os_path_dirname undecodable_host
        (os_path_abspath undecodable_host (executable undecodable_host))) = None"
  by (simp_all add: undecodable_host_def portable_host_def unix_host_def posix_dirname_def
      ascii_decode_def)

theorem get_win32_portable_path_cases_witness:
  "(\<exists>w'. get_win32_portable_path portable_host empty_world = (Inr (Unicode ''C:/OpenSlides''), w')
        \<and> files w' ''C:/OpenSlides/tmpk3x9'' = None
        \<and> 3 \<notin> open_fds w'
        \<and> calls w' = [Mkstemp ''C:/OpenSlides'', OsClose 3, OsUnlink ''C:/OpenSlides/tmpk3x9''])
   \<and> (\<exists>msg. get_win32_portable_path (portable_host\<lparr>mkstemp := (\<lambda>dir. None)\<rparr>) empty_world
              = (Inl (PortableDirNotWritable msg),
                 empty_world\<lparr>calls := [Mkstemp ''C:/OpenSlides'']\<rparr>))
   \<and> get_win32_portable_path undecodable_host empty_world
       = (Inl (UnicodeDecodeError (''C:/Versammlung '' @ [CHR 0xFC] @ ''ber alles'')), empty_world)"
proof -
  let ?ro = "portable_host\<lparr>mkstemp := (\<lambda>dir. None)\<rparr>"
  have ro: "fs_decode ?ro (os_path_dirname ?ro (os_path_abspath ?ro (executable ?ro)))
              = Some ''C:/OpenSlides''"
      "mkstemp ?ro ''C:/OpenSlides'' = None"
    using portable_host_mkstemp by simp_all
  from get_win32_portable_path_cases[of portable_host empty_world]
  have "\<exists>w'. get_win32_portable_path portable_host empty_world = (Inr (Unicode ''C:/OpenSlides''), w')
        \<and> files w' ''C:/OpenSlides/tmpk3x9'' = None
        \<and> 3 \<notin> open_fds w'
        \<and> calls w' = [Mkstemp ''C:/OpenSlides'', OsClose 3, OsUnlink ''C:/OpenSlides/tmpk3x9'']"
    by (auto simp: portable_host_mkstemp empty_world_def)
  moreover from get_win32_portable_path_cases[of ?ro empty_world] ro
  have "\<exists>msg. get_win32_portable_path ?ro empty_world
              = (Inl (PortableDirNotWritable msg),
                 empty_world\<lparr>calls := [Mkstemp ''C:/OpenSlides'']\<rparr>)"
    by (auto simp: empty_world_def)
  moreover from get_win32_portable_path_cases[of undecodable_host empty_world]
    undecodable_host_dirname(2)
  have "get_win32_portable_path undecodable_host empty_world
       = (Inl (UnicodeDecodeError
                 (os_path_dirname undecodable_host
                    (os_path_abspath undecodable_host (executable undecodable_host)))),
          empty_world)"
    by blast
  then have "get_win32_portable_path undecodable_host empty_world
       = (Inl (UnicodeDecodeError (''C:/Versammlung '' @ [CHR 0xFC] @ ''ber alles'')), empty_world)"
    by (simp only: undecodable_host_dirname(1))
  ultimately show ?thesis by blast
qed

subsection \<open>get\_database\_path\_from\_settings\<close>

text \<open>
  Claim C6. \<open>get_database_path_from_settings\<close> raises \<open>DatabaseInSettingsError\<close> if and
  only if \<open>DATABASES\<close> has no default entry, or the default entry has no \<open>NAME\<close> or a
  falsy one, and it raises nothing else. Otherwise it returns the \<open>NAME\<close> when the
  default \<open>ENGINE\<close> is \<open>django.db.backends.sqlite3\<close> and \<open>None\<close> when it is not.
\<close>

theorem get_database_path_from_settings_cases:
  "((\<exists>msg. get_database_path_from_settings DATABASES = Inl (DatabaseInSettingsError msg)) \<longleftrightarrow>
      (map_of DATABASES DEFAULT_DB_ALIAS = None
       \<or> (\<exists>dflt. map_of DATABASES DEFAULT_DB_ALIAS = Some dflt
             \<and> (map_of dflt ''NAME'' = None
                \<or> (\<exists>v. map_of dflt ''NAME'' = Some v \<and> \<not> truthy v)))))
   \<and> (\<forall>e. get_database_path_from_settings DATABASES = Inl e \<longrightarrow>
         (\<exists>msg. e = DatabaseInSettingsError msg))
   \<and> (\<forall>dflt name.
         map_of DATABASES DEFAULT_DB_ALIAS = Some dflt \<and> map_of dflt ''NAME'' = Some name
           \<and> truthy name \<longrightarrow>
         get_database_path_from_settings DATABASES
           = Inr (if map_of dflt ''ENGINE'' = Some (PyStr ''django.db.backends.sqlite3'')
                  then name else PyNone))"
  by (auto simp: get_database_path_from_settings_def split: option.splits)

theorem get_database_path_from_settings_cases_witness:
  "get_database_path_from_settings sqlite_settings
     = Inr (PyStr ''/home/os/.local/share/openslides/database.sqlite'')
   \<and> get_database_path_from_settings postgres_settings = Inr PyNone
   \<and> (\<exists>msg. get_database_path_from_settings [(''default'', [])] = Inl (DatabaseInSettingsError msg))
   \<and> (\<exists>msg. get_database_path_from_settings [(''default'', [(''NAME'', PyStr '''')])]
              = Inl (DatabaseInSettingsError msg))
   \<and> (\<exists>msg. get_database_path_from_settings [] = Inl (DatabaseInSettingsError msg))"
  using get_database_path_from_settings_cases[of sqlite_settings]
    get_database_path_from_settings_cases[of postgres_settings]
    get_database_path_from_settings_cases[of "[(''default'', [])]"]
    get_database_path_from_settings_cases[of "[(''default'', [(''NAME'', PyStr '''')])]"]
    get_database_path_from_settings_cases[of "[]"]
  by (simp add: sqlite_settings_def postgres_settings_def DEFAULT_DB_ALIAS_def)

subsection \<open>Default paths\<close>

text \<open>
  Claim C10, as amended. For an argument that is none of the three version constants,
  \<open>get_default_settings_path\<close> and \<open>get_default_user_data_path\<close> raise \<open>TypeError\<close> and
  change nothing. For the Unix version, \<open>get_default_settings_path\<close> decodes the config
  home (\<open>XDG_CONFIG_HOME\<close> if set, else the join of the home directory and \<open>.config\<close>)
  with the file system's encoding and returns the join of the decoded path with
  \<open>openslides\<close> and \<open>settings.py\<close>; when the config home cannot be decoded, it raises
  \<open>UnicodeDecodeError\<close>.
\<close>

theorem default_paths_type_error:
  "(openslides_type \<notin> {UNIX_VERSION, WINDOWS_VERSION, WINDOWS_PORTABLE_VERSION} \<longrightarrow>
      get_default_settings_path h openslides_type w
        = (Inl (TypeError (openslides_type @ '' is not a valid OpenSlides type.'')), w)
      \<and> get_default_user_data_path h openslides_type w
        = (Inl (TypeError (openslides_type @ '' is not a valid OpenSlides type.'')), w))
   \<and> (\<forall>u. fs_decode h (case map_of (environ h) ''XDG_CONFIG_HOME'' of
                          Some v \<Rightarrow> v
                        | None \<Rightarrow> os_path_join h [os_path_expanduser h ''~'', ''.config''])
            = Some u \<longrightarrow>
         get_default_settings_path h UNIX_VERSION w
           = (Inr (Unicode (os_path_join h [u, ''openslides'', ''settings.py''])), w))
   \<and> (fs_decode h (case map_of (environ h) ''XDG_CONFIG_HOME'' of
                     Some v \<Rightarrow> v
                   | None \<Rightarrow> os_path_join h [os_path_expanduser h ''~'', ''.config''])
         = None \<longrightarrow>
       get_default_settings_path h UNIX_VERSION w
         = (Inl (UnicodeDecodeError
                  (case map_of (environ h) ''XDG_CONFIG_HOME'' of
                     Some v \<Rightarrow> v
                   | None \<Rightarrow> os_path_join h [os_path_expanduser h ''~'', ''.config''])), w))"
  by (simp add: get_default_settings_path_def get_default_user_data_path_def
      filesystem2unicode_def path_join_def)

lemma unix_host_paths:
  "environ unix_host = [(''HOME'', ''/home/os'')]"
  "os_path_expanduser unix_host ''~'' = ''/home/os''"
  "os_path_join unix_host = posix_join"
  "fs_decode unix_host = ascii_decode"
  by (simp_all add: unix_host_def)

lemma posix_join_examples:
  "posix_join [''/home/os'', ''.config''] = ''/home/os/.config''"
  "posix_join [''/home/os/.config'', ''openslides'', ''settings.py'']
     = ''/home/os/.config/openslides/settings.py''"
  "posix_join [''/etc/xdg'', ''openslides'', ''settings.py''] = ''/etc/xdg/openslides/settings.py''"
  by (simp_all add: posix_join_def)

text \<open>
  Claim C10 as stated says that the Unix version always gets the joined path. On a host
  whose \<open>XDG_CONFIG_HOME\<close> holds a byte that the file system's encoding rejects,
  \<open>get_default_settings_path\<close> raises \<open>UnicodeDecodeError\<close> and returns no path.
\<close>

theorem default_settings_path_counterexample:
  "map_of (environ (unix_host\<lparr>environ := [(''XDG_CONFIG_HOME'',
                                      ''/home/j'' @ [CHR 0xF6] @ ''rg/.config'')]\<rparr>))
      ''XDG_CONFIG_HOME'' = Some (''/home/j'' @ [CHR 0xF6] @ ''rg/.config'')
   \<and> get_default_settings_path
        (unix_host\<lparr>environ := [(''XDG_CONFIG_HOME'', ''/home/j'' @ [CHR 0xF6] @ ''rg/.config'')]\<rparr>)
        UNIX_VERSION empty_world
      = (Inl (UnicodeDecodeError (''/home/j'' @ [CHR 0xF6] @ ''rg/.config'')), empty_world)"
  by (simp add: get_default_settings_path_def filesystem2unicode_def unix_host_paths
      ascii_decode_def)

theorem default_paths_type_error_witness:
  "get_default_settings_path unix_host ''Mac Version'' empty_world
     = (Inl (TypeError ''Mac Version is not a valid OpenSlides type.''), empty_world)
   \<and> get_default_user_data_path unix_host ''Mac Version'' empty_world
     = (Inl (TypeError ''Mac Version is not a valid OpenSlides type.''), empty_world)
   \<and> get_default_settings_path unix_host UNIX_VERSION empty_world
     = (Inr (Unicode ''/home/os/.config/openslides/settings.py''), empty_world)
   \<and> get_default_settings_path (unix_host\<lparr>environ := [(''XDG_CONFIG_HOME'', ''/etc/xdg'')]\<rparr>)
        UNIX_VERSION empty_world
     = (Inr (Unicode ''/etc/xdg/openslides/settings.py''), empty_world)
   \<and> get_default_settings_path
        (unix_host\<lparr>environ := [(''XDG_CONFIG_HOME'', ''/home/j'' @ [CHR 0xF6] @ ''rg/.config'')]\<rparr>)
        UNIX_VERSION empty_world
      = (Inl (UnicodeDecodeError (''/home/j'' @ [CHR 0xF6] @ ''rg/.config'')), empty_world)"
  using default_paths_type_error[of "''Mac Version''" unix_host empty_world]
    default_paths_type_error[of "''Mac Version''"
      "unix_host\<lparr>environ := [(''XDG_CONFIG_HOME'', ''/etc/xdg'')]\<rparr>" empty_world]
    default_paths_type_error[of "''Mac Version''"
      "unix_host\<lparr>environ := [(''XDG_CONFIG_HOME'',
                                ''/home/j'' @ [CHR 0xF6] @ ''rg/.config'')]\<rparr>" empty_world]
  by (simp add: unix_host_paths posix_join_examples ascii_decode_def UNIX_VERSION_def
      WINDOWS_VERSION_def WINDOWS_PORTABLE_VERSION_def)

subsection \<open>ensure\_settings\<close>

lemma portable_path_calls:
  "\<exists>es. calls (snd (get_win32_portable_path h w)) = calls w @ es \<and> \<not> list_ex is_write es"
  by (auto simp: get_win32_portable_path_def Let_def call_def os_unlink_def os_close_def
      mkstemp_created_def is_write_def split: option.splits sum.splits)

lemma user_data_path_calls:
  "\<exists>es. calls (snd (get_default_user_data_path h t w)) = calls w @ es \<and> \<not> list_ex is_write es"
  using portable_path_calls[of h w]
  by (auto simp: get_default_user_data_path_def)

lemma settings_context_calls:
  "\<exists>es. calls (snd (get_default_settings_context h u w)) = calls w @ es \<and> \<not> list_ex is_write es"
proof -
  obtain r w1 where g: "get_default_user_data_path h (detect_openslides_type h) w = (r, w1)"
    by (cases "get_default_user_data_path h (detect_openslides_type h) w")
  with user_data_path_calls[of h "detect_openslides_type h" w]
  obtain es where es: "calls w1 = calls w @ es" "\<not> list_ex is_write es" by auto
  show ?thesis
  proof (cases "u \<noteq> None \<and> map_option text_of u \<noteq> Some []")
    case True
    then have "snd (get_default_settings_context h u w) = w"
      by (auto simp: get_default_settings_context_def split: sum.splits)
    then show ?thesis by simp
  next
    case False
    then have "snd (get_default_settings_context h u w) = w1"
      using g by (cases r) (auto simp: get_default_settings_context_def Let_def split: sum.splits)
    with es show ?thesis by auto
  qed
qed

lemma write_settings_result:
  "write_settings h path template cx w = (Inr u, w') \<Longrightarrow>
     \<exists>content es. files w' path = Some content
        \<and> calls w' = calls w @ es @ [WriteFile path content] \<and> \<not> list_ex is_write es"
  by (auto simp: write_settings_def Let_def write_file_def call_def os_makedirs_def is_write_def
      split: option.splits sum.splits if_splits)

lemma write_settings_error:
  "write_settings h path template cx w = (Inl e, w') \<Longrightarrow> w' = w"
  by (auto simp: write_settings_def Let_def split: option.splits sum.splits if_splits)

lemma ensure_settings_skip:
  "settings = None \<or> settings = Some [] \<or> (\<exists>p. settings = Some p \<and> os_path_exists w p) \<Longrightarrow>
     ensure_settings h settings args w = (Inr (), w)"
  by (auto simp: ensure_settings_def split: option.splits)

lemma ensure_settings_calls:
  assumes "ensure_settings h (Some path) args w = (r, w')"
  shows "\<exists>es. calls w' = calls w @ es \<and> (\<forall>e \<in> set es. is_write e \<longrightarrow> (\<exists>c. e = WriteFile path c))"
proof (cases "path \<noteq> [] \<and> \<not> os_path_exists w path")
  case False
  with assms have "w' = w" by (auto simp: ensure_settings_def)
  then show ?thesis by simp
next
  case True
  let ?u = "case map_of args ''user_data_path'' of None \<Rightarrow> None | Some v \<Rightarrow> v"
  have ctx: "(case map_of args ''user_data_path'' of
                None \<Rightarrow> get_default_settings_context h None w
              | Some user_data_path \<Rightarrow> get_default_settings_context h user_data_path w)
             = get_default_settings_context h ?u w"
    by (simp split: option.splits)
  obtain rc w1 where c: "get_default_settings_context h ?u w = (rc, w1)"
    by (cases "get_default_settings_context h ?u w")
  with settings_context_calls[of h ?u w]
  obtain es1 where es1: "calls w1 = calls w @ es1" "\<not> list_ex is_write es1" by auto
  show ?thesis
  proof (cases rc)
    case (Inl e)
    with assms True c ctx have "w' = w1" by (simp add: ensure_settings_def)
    with es1 show ?thesis by (auto simp: list_ex_iff)
  next
    case (Inr cx)
    obtain rw w2 where ws: "write_settings h path None cx w1 = (rw, w2)"
      by (cases "write_settings h path None cx w1")
    show ?thesis
    proof (cases rw)
      case (Inl e)
      with ws have "w2 = w1" using write_settings_error by blast
      moreover from assms True c ctx Inr ws Inl have "w' = w2" by (simp add: ensure_settings_def)
      ultimately show ?thesis using es1 by (auto simp: list_ex_iff)
    next
      case (Inr u)
      with ws write_settings_result[of h path None cx w1 u w2]
      obtain content es2 where w2: "calls w2 = calls w1 @ es2 @ [WriteFile path content]"
        "\<not> list_ex is_write es2" by auto
      from assms True c ctx \<open>rc = Inr cx\<close> ws Inr
      have "w' = call (Print (''Settings file at '' @ path @ '' successfully created.'')) w2"
        by (simp add: ensure_settings_def)
      then have "calls w' = calls w @ (es1 @ es2 @
          [WriteFile path content, Print (''Settings file at '' @ path @ '' successfully created.'')])"
        using es1 w2 by (simp add: call_def)
      moreover have "\<forall>e \<in> set (es1 @ es2 @
          [WriteFile path content, Print (''Settings file at '' @ path @ '' successfully created.'')]).
           is_write e \<longrightarrow> (\<exists>c. e = WriteFile path c)"
        using es1 w2 by (auto simp: list_ex_iff is_write_def)
      ultimately show ?thesis by blast
    qed
  qed
qed

lemma ensure_settings_created:
  assumes "ensure_settings h (Some path) args w = (Inr (), w')"
    and "path \<noteq> []" and "\<not> os_path_exists w path"
  shows "\<exists>content. files w' path = Some content \<and> WriteFile path content \<in> set (calls w')
           \<and> os_path_exists w' path"
proof -
  let ?u = "case map_of args ''user_data_path'' of None \<Rightarrow> None | Some v \<Rightarrow> v"
  have ctx: "(case map_of args ''user_data_path'' of
                None \<Rightarrow> get_default_settings_context h None w
              | Some user_data_path \<Rightarrow> get_default_settings_context h user_data_path w)
             = get_default_settings_context h ?u w"
    by (simp split: option.splits)
  obtain rc w1 where c: "get_default_settings_context h ?u w = (rc, w1)"
    by (cases "get_default_settings_context h ?u w")
  from assms c ctx obtain cx where rc: "rc = Inr cx"
    by (cases rc) (simp_all add: ensure_settings_def)
  obtain rw w2 where ws: "write_settings h path None cx w1 = (rw, w2)"
    by (cases "write_settings h path None cx w1")
  from assms c ctx rc ws obtain u where rw: "rw = Inr u"
    by (cases rw) (simp_all add: ensure_settings_def)
  from ws rw write_settings_result[of h path None cx w1 u w2]
  obtain content es2 where w2: "files w2 path = Some content"
    "calls w2 = calls w1 @ es2 @ [WriteFile path content]" by auto
  from assms c ctx rc ws rw
  have "w' = call (Print (''Settings file at '' @ path @ '' successfully created.'')) w2"
    by (simp add: ensure_settings_def)
  with w2 show ?thesis by (auto simp: call_def os_path_exists_def)
qed

text \<open>
  Claim C7. When the settings path is \<open>None\<close> or empty, or something exists at the
  path, \<open>ensure_settings\<close> returns with the world unchanged: nothing is written and
  the existing file is as it was. Hence a changed world means that the path was
  non-empty and nothing existed there; and every file that \<open>ensure_settings\<close> writes is
  written at the settings path, under that condition. When it returns normally under
  that condition, the settings file exists with the written content, and a second call
  changes nothing.
\<close>

theorem ensure_settings_frame:
  "((settings = None \<or> settings = Some [] \<or> (\<exists>p. settings = Some p \<and> os_path_exists w p)) \<longrightarrow>
      ensure_settings h settings args w = (Inr (), w))
   \<and> (snd (ensure_settings h settings args w) \<noteq> w \<longrightarrow>
        (\<exists>p. settings = Some p \<and> p \<noteq> [] \<and> \<not> os_path_exists w p))
   \<and> (\<exists>es. calls (snd (ensure_settings h settings args w)) = calls w @ es
          \<and> (\<forall>p c. WriteFile p c \<in> set es \<longrightarrow>
                settings = Some p \<and> p \<noteq> [] \<and> \<not> os_path_exists w p))
   \<and> (\<forall>p w'. settings = Some p \<and> p \<noteq> [] \<and> \<not> os_path_exists w p
          \<and> ensure_settings h settings args w = (Inr (), w') \<longrightarrow>
          (\<exists>content. files w' p = Some content \<and> WriteFile p content \<in> set (calls w')
             \<and> ensure_settings h settings args w' = (Inr (), w')))"
proof -
  have skip: "(settings = None \<or> settings = Some [] \<or> (\<exists>p. settings = Some p \<and> os_path_exists w p)) \<longrightarrow>
      ensure_settings h settings args w = (Inr (), w)"
    using ensure_settings_skip by blast
  have changed: "snd (ensure_settings h settings args w) \<noteq> w \<longrightarrow>
        (\<exists>p. settings = Some p \<and> p \<noteq> [] \<and> \<not> os_path_exists w p)"
    using ensure_settings_skip[of settings w h args] by (cases settings) auto
  have writes: "\<exists>es. calls (snd (ensure_settings h settings args w)) = calls w @ es
          \<and> (\<forall>p c. WriteFile p c \<in> set es \<longrightarrow>
                settings = Some p \<and> p \<noteq> [] \<and> \<not> os_path_exists w p)"
  proof (cases "\<exists>p. settings = Some p \<and> p \<noteq> [] \<and> \<not> os_path_exists w p")
    case False
    then have "ensure_settings h settings args w = (Inr (), w)"
      using ensure_settings_skip[of settings w h args] by (cases settings) auto
    then show ?thesis by simp
  next
    case True
    then obtain path where p: "settings = Some path" "path \<noteq> []" "\<not> os_path_exists w path"
      by blast
    obtain r w' where e: "ensure_settings h (Some path) args w = (r, w')"
      by (cases "ensure_settings h (Some path) args w")
    from ensure_settings_calls[OF e] obtain es where
      es: "calls w' = calls w @ es" "\<forall>e \<in> set es. is_write e \<longrightarrow> (\<exists>c. e = WriteFile path c)"
      by blast
    have "\<forall>p c. WriteFile p c \<in> set es \<longrightarrow> p = path"
      using es(2) by (force simp: is_write_def)
    with es(1) e p show ?thesis by auto
  qed
  have created: "\<forall>p w'. settings = Some p \<and> p \<noteq> [] \<and> \<not> os_path_exists w p
          \<and> ensure_settings h settings args w = (Inr (), w') \<longrightarrow>
          (\<exists>content. files w' p = Some content \<and> WriteFile p content \<in> set (calls w')
             \<and> ensure_settings h settings args w' = (Inr (), w'))"
  proof (intro allI impI)
    fix p w'
    assume a: "settings = Some p \<and> p \<noteq> [] \<and> \<not> os_path_exists w p
          \<and> ensure_settings h settings args w = (Inr (), w')"
    then have "ensure_settings h (Some p) args w = (Inr (), w')" by auto
    from ensure_settings_created[OF this] a obtain content where
      c: "files w' p = Some content" "WriteFile p content \<in> set (calls w')" "os_path_exists w' p"
      by blast
    from c(3) a have "ensure_settings h settings args w' = (Inr (), w')"
      using ensure_settings_skip[of settings w' h args] by blast
    with c show "\<exists>content. files w' p = Some content \<and> WriteFile p content \<in> set (calls w')
             \<and> ensure_settings h settings args w' = (Inr (), w')" by blast
  qed
  from skip changed writes created show ?thesis by blast
qed

lemma unix_host_context:
  "get_default_settings_context unix_host None template_world
     = (Inr [(''import_function'', ''''),
             (''database_path_value'',
                ''u'' @ [CHR 0x27] @ ''/home/os/.local/share/openslides/database.sqlite'' @ [CHR 0x27]),
             (''media_path_value'',
                ''u'' @ [CHR 0x27] @ ''/home/os/.local/share/openslides/media/'' @ [CHR 0x27]),
             (''whoosh_index_path_value'',
                ''u'' @ [CHR 0x27] @ ''/home/os/.local/share/openslides/whoosh_index/'' @ [CHR 0x27]),
             (''debug'', ''False'')],
        template_world)"
  by (simp add: get_default_settings_context_def detect_openslides_type_def
      get_default_user_data_path_def get_user_data_path_values_def
      get_user_data_path_values_with_path_def filesystem2unicode_def unix_host_def
      posix_join_def ascii_decode_def path_join_def path_abspath_def UNIX_VERSION_def
      WINDOWS_PORTABLE_VERSION_def)

lemma unix_host_ensure_settings:
  "fst (ensure_settings unix_host (Some ''/home/os/.config/openslides/settings.py'') []
          template_world) = Inr ()"
  by (simp add: ensure_settings_def unix_host_context)
     (simp add: write_settings_def unix_host_def template_world_def os_path_exists_def
        posix_join_def posix_dirname_def Let_def)

theorem ensure_settings_frame_witness:
  "(\<exists>w'. ensure_settings unix_host (Some ''/home/os/.config/openslides/settings.py'') []
            template_world = (Inr (), w')
        \<and> files w' ''/home/os/.config/openslides/settings.py'' = Some ''DEBUG = %(debug)s''
        \<and> ensure_settings unix_host (Some ''/home/os/.config/openslides/settings.py'') [] w'
            = (Inr (), w'))
   \<and> ensure_settings unix_host None [] template_world = (Inr (), template_world)
   \<and> ensure_settings unix_host (Some '''') [] template_world = (Inr (), template_world)
   \<and> ensure_settings unix_host (Some ''/opt/openslides/utils/settings.py.tpl'') [] template_world
       = (Inr (), template_world)"
proof -
  let ?p = "''/home/os/.config/openslides/settings.py''"
  obtain w' where run: "ensure_settings unix_host (Some ?p) [] template_world = (Inr (), w')"
    using unix_host_ensure_settings
    by (cases "ensure_settings unix_host (Some ?p) [] template_world") auto
  have fresh: "\<not> os_path_exists template_world ?p"
    by (simp add: os_path_exists_def template_world_def)
  from ensure_settings_frame[of "Some ?p" template_world unix_host "[]"] run fresh
  obtain content where c: "files w' ?p = Some content"
    and again: "ensure_settings unix_host (Some ?p) [] w' = (Inr (), w')"
    by auto
  have "files (snd (ensure_settings unix_host (Some ?p) [] template_world)) ?p
          = Some ''DEBUG = %(debug)s''"
    by (simp add: ensure_settings_def unix_host_context)
       (simp add: write_settings_def unix_host_def template_world_def os_path_exists_def
          posix_join_def posix_dirname_def Let_def write_file_def call_def os_makedirs_def)
  with run have "files w' ?p = Some ''DEBUG = %(debug)s''" by simp
  moreover have "ensure_settings unix_host None [] template_world = (Inr (), template_world)"
    using ensure_settings_frame[of None template_world unix_host "[]"] by simp
  moreover have "ensure_settings unix_host (Some '''') [] template_world = (Inr (), template_world)"
    using ensure_settings_frame[of "Some ''''" template_world unix_host "[]"] by simp
  moreover have "ensure_settings unix_host (Some ''/opt/openslides/utils/settings.py.tpl'') []
       template_world = (Inr (), template_world)"
    using ensure_settings_frame[of "Some ''/opt/openslides/utils/settings.py.tpl''"
        template_world unix_host "[]"]
    by (simp add: os_path_exists_def template_world_def)
  ultimately show ?thesis using run again by blast
qed

end
